theory Spec2Isabelle
  imports Complex_Main "HOL-Library.Monad_Syntax"
begin

section \<open>Scalars: C++ float\<close>

text \<open>
  A C++ \<^verbatim>\<open>float\<close> is a finite number, one of the two infinities, or a NaN.
  The finite values are carried as reals and the result of an operation on finite
  values is kept exactly (rounding and overflow to infinity are not modelled, and the
  two zeros are one value); the special values follow IEEE 754. The sources of the entity only copy floats, compare
  them (\<^verbatim>\<open>mass <= 0.0f\<close>), test them (\<^verbatim>\<open>std::isfinite\<close>) and scale the Euler angles
  by \<^verbatim>\<open>RAD2DEG\<close>.
\<close>

datatype float32 = Finite real | PosInf | NegInf | NaN

fun isfinite :: "float32 \<Rightarrow> bool" where
  "isfinite (Finite r) = True"
| "isfinite PosInf = False"
| "isfinite NegInf = False"
| "isfinite NaN = False"

text \<open>\<^verbatim>\<open>a <= b\<close>: false as soon as one operand is a NaN.\<close>

fun fle :: "float32 \<Rightarrow> float32 \<Rightarrow> bool" where
  "fle NaN b = False"
| "fle a NaN = False"
| "fle NegInf b = True"
| "fle a PosInf = True"
| "fle (Finite a) (Finite b) = (a \<le> b)"
| "fle PosInf b = False"
| "fle (Finite a) NegInf = False"

text \<open>\<^verbatim>\<open>a < b\<close>.\<close>

definition flt :: "float32 \<Rightarrow> float32 \<Rightarrow> bool" where
  "flt a b = (fle a b \<and> \<not> fle b a)"

fun fneg :: "float32 \<Rightarrow> float32" where
  "fneg (Finite a) = Finite (- a)"
| "fneg PosInf = NegInf"
| "fneg NegInf = PosInf"
| "fneg NaN = NaN"

fun fadd :: "float32 \<Rightarrow> float32 \<Rightarrow> float32" where
  "fadd NaN b = NaN"
| "fadd a NaN = NaN"
| "fadd (Finite a) (Finite b) = Finite (a + b)"
| "fadd PosInf NegInf = NaN"
| "fadd NegInf PosInf = NaN"
| "fadd PosInf b = PosInf"
| "fadd NegInf b = NegInf"
| "fadd (Finite a) b = b"

definition fsub :: "float32 \<Rightarrow> float32 \<Rightarrow> float32" where
  "fsub a b = fadd a (fneg b)"

text \<open>An infinity times \<open>r\<close>: NaN at zero, otherwise the infinity of the product's sign.\<close>

definition inf_times :: "bool \<Rightarrow> real \<Rightarrow> float32" where
  "inf_times positive r =
     (if r = 0 then NaN else if (0 < r) = positive then PosInf else NegInf)"

fun fmul :: "float32 \<Rightarrow> float32 \<Rightarrow> float32" where
  "fmul NaN b = NaN"
| "fmul a NaN = NaN"
| "fmul (Finite a) (Finite b) = Finite (a * b)"
| "fmul (Finite a) PosInf = inf_times True a"
| "fmul (Finite a) NegInf = inf_times False a"
| "fmul PosInf (Finite b) = inf_times True b"
| "fmul NegInf (Finite b) = inf_times False b"
| "fmul PosInf PosInf = PosInf"
| "fmul NegInf NegInf = PosInf"
| "fmul PosInf NegInf = NegInf"
| "fmul NegInf PosInf = NegInf"

text \<open>raylib's \<^verbatim>\<open>#define RAD2DEG (180.0f/PI)\<close>.\<close>

definition RAD2DEG :: float32 where
  "RAD2DEG = Finite (180 / pi)"

section \<open>raylib and PhysX value types\<close>

text \<open>raylib: \<^verbatim>\<open>Vector3 {x, y, z}\<close>, \<^verbatim>\<open>Quaternion {x, y, z, w}\<close> and the 4x4 \<^verbatim>\<open>Matrix\<close>
  with its sixteen fields \<^verbatim>\<open>m0 .. m15\<close> (column-major: \<^verbatim>\<open>m12, m13, m14\<close> is the
  translation).\<close>

datatype Vector3 = Vector3 (vx: float32) (vy: float32) (vz: float32)

datatype Quaternion = Quaternion (qx: float32) (qy: float32) (qz: float32) (qw: float32)

record Matrix =
  m0 :: float32
  m1 :: float32
  m2 :: float32
  m3 :: float32
  m4 :: float32
  m5 :: float32
  m6 :: float32
  m7 :: float32
  m8 :: float32
  m9 :: float32
  m10 :: float32
  m11 :: float32
  m12 :: float32
  m13 :: float32
  m14 :: float32
  m15 :: float32

text \<open>PhysX: \<^verbatim>\<open>PxVec3\<close>, \<^verbatim>\<open>PxVec4\<close>, \<^verbatim>\<open>PxQuat\<close>, \<^verbatim>\<open>PxTransform {q, p}\<close> and the
  column-major \<^verbatim>\<open>PxMat44 {column0 .. column3}\<close>.\<close>

datatype PxVec3 = PxVec3 (px: float32) (py: float32) (pz: float32)

datatype PxVec4 = PxVec4 (cx: float32) (cy: float32) (cz: float32) (cw: float32)

datatype PxQuat = PxQuat (pqx: float32) (pqy: float32) (pqz: float32) (pqw: float32)

datatype PxTransform = PxTransform (transform_p: PxVec3) (transform_q: PxQuat)

datatype PxMat33 = PxMat33 (axis0: PxVec3) (axis1: PxVec3) (axis2: PxVec3)

datatype PxMat44 =
  PxMat44 (column0: PxVec4) (column1: PxVec4) (column2: PxVec4) (column3: PxVec4)

text \<open>\<^verbatim>\<open>PxQuat(PxIdentity)\<close> and \<^verbatim>\<open>PxVec3(0)\<close>.\<close>

definition PxIdentity :: PxQuat where
  "PxIdentity = PxQuat (Finite 0) (Finite 0) (Finite 0) (Finite 1)"

definition PxVec3_zero :: PxVec3 where
  "PxVec3_zero = PxVec3 (Finite 0) (Finite 0) (Finite 0)"

text \<open>
  Modelled from the spec: the constructor \<^verbatim>\<open>PxMat44(const PxTransform&)\<close> belongs to the
  PhysX SDK and is not among the sources. Section 4.2 (steps 2 and 3) describes its
  result: a column-major homogeneous matrix whose first three columns are the rotation
  basis vectors derived from the pose's orientation, each with bottom element 0, and
  whose fourth column is the pose's position with bottom element 1. The rotation of a
  quaternion \<open>(x, y, z, w)\<close> is the usual one, written with the doubled components
  \<open>x2 = x + x\<close>, \<open>y2 = y + y\<close>, \<open>z2 = z + z\<close>.
\<close>

definition PxMat33_of_quat :: "PxQuat \<Rightarrow> PxMat33" where
  "PxMat33_of_quat q =
     (let x = pqx q; y = pqy q; z = pqz q; w = pqw q;
          x2 = fadd x x; y2 = fadd y y; z2 = fadd z z;
          xx = fmul x2 x; yy = fmul y2 y; zz = fmul z2 z;
          xy = fmul x2 y; xz = fmul x2 z; xw = fmul x2 w;
          yz = fmul y2 z; yw = fmul y2 w; zw = fmul z2 w
      in PxMat33
           (PxVec3 (fsub (fsub (Finite 1) yy) zz) (fadd xy zw) (fsub xz yw))
           (PxVec3 (fsub xy zw) (fsub (fsub (Finite 1) xx) zz) (fadd yz xw))
           (PxVec3 (fadd xz yw) (fsub yz xw) (fsub (fsub (Finite 1) xx) yy)))"

definition PxVec4_of :: "PxVec3 \<Rightarrow> float32 \<Rightarrow> PxVec4" where
  "PxVec4_of v w = PxVec4 (px v) (py v) (pz v) w"

definition PxMat44_of_transform :: "PxTransform \<Rightarrow> PxMat44" where
  "PxMat44_of_transform t =
     (let axes = PxMat33_of_quat (transform_q t)
      in PxMat44 (PxVec4_of (axis0 axes) (Finite 0))
                 (PxVec4_of (axis1 axes) (Finite 0))
                 (PxVec4_of (axis2 axes) (Finite 0))
                 (PxVec4_of (transform_p t) (Finite 1)))"

section \<open>The physical world\<close>

text \<open>
  Pointers into the PhysX SDK are handles: a \<^verbatim>\<open>PxRigidDynamic*\<close> is \<open>None\<close> when null and
  \<open>Some h\<close> otherwise, a \<^verbatim>\<open>PxShape*\<close> returned by the SDK is the index of the shape in its
  actor's list. A geometry descriptor, a material, a model and a model identifier are
  opaque: they are told apart by a number.
\<close>

datatype PxGeometry = PxGeometry nat

type_synonym PxMaterial = nat

type_synonym ModelID = nat

type_synonym Model = nat

record PxShape =
  geometry :: PxGeometry
  material :: PxMaterial
  contactOffset :: float32
  restOffset :: float32

record PxRigidDynamic =
  globalPose :: PxTransform
  linearVelocity :: PxVec3
  angularVelocity :: PxVec3
  actorMass :: float32
  shapes :: "PxShape list"
  sleepThreshold :: float32
  userData :: "nat option"

text \<open>The SDK's store of actors; \<open>next_actor\<close> is the handle the next created actor gets,
  so it counts the actors created so far.\<close>

record PxPhysics =
  actors :: "nat \<rightharpoonup> PxRigidDynamic"
  next_actor :: nat

text \<open>
  Modelled from the spec: the PhysX SDK (\<^verbatim>\<open>PxPhysics\<close>, \<^verbatim>\<open>PxRigidDynamic\<close>, \<^verbatim>\<open>PxShape\<close>,
  \<^verbatim>\<open>PxRigidActorExt\<close>, \<^verbatim>\<open>PxRigidBodyExt\<close>) is an external collaborator whose code is not
  among the sources. Section 6 gives its contract: \<^verbatim>\<open>CreateBody(pose)\<close> returns the handle
  of a new body, \<^verbatim>\<open>GetPose\<close> and \<^verbatim>\<open>GetLinearVelocity\<close> read what \<^verbatim>\<open>SetPose\<close> and
  \<^verbatim>\<open>SetLinearVelocity\<close> wrote, and \<^verbatim>\<open>ReleaseBody\<close> removes the body. Every setter stores
  its argument in the actor behind the handle and every getter reads it back. A call
  through a handle that has no actor behind it (a dangling pointer) is undefined
  behaviour: the result is \<open>None\<close>.
\<close>

definition update_actor ::
  "nat \<Rightarrow> (PxRigidDynamic \<Rightarrow> PxRigidDynamic) \<Rightarrow> PxPhysics \<Rightarrow> PxPhysics option" where
  "update_actor h f w =
     (case actors w h of
        None \<Rightarrow> None
      | Some a \<Rightarrow> Some (w\<lparr>actors := (actors w)(h \<mapsto> f a)\<rparr>))"

definition getGlobalPose :: "PxPhysics \<Rightarrow> nat \<Rightarrow> PxTransform option" where
  "getGlobalPose w h = map_option globalPose (actors w h)"

definition getLinearVelocity :: "PxPhysics \<Rightarrow> nat \<Rightarrow> PxVec3 option" where
  "getLinearVelocity w h = map_option linearVelocity (actors w h)"

definition setGlobalPose :: "nat \<Rightarrow> PxTransform \<Rightarrow> PxPhysics \<Rightarrow> PxPhysics option" where
  "setGlobalPose h t = update_actor h (\<lambda>a. a\<lparr>globalPose := t\<rparr>)"

definition setLinearVelocity :: "nat \<Rightarrow> PxVec3 \<Rightarrow> PxPhysics \<Rightarrow> PxPhysics option" where
  "setLinearVelocity h v = update_actor h (\<lambda>a. a\<lparr>linearVelocity := v\<rparr>)"

definition setAngularVelocity :: "nat \<Rightarrow> PxVec3 \<Rightarrow> PxPhysics \<Rightarrow> PxPhysics option" where
  "setAngularVelocity h v = update_actor h (\<lambda>a. a\<lparr>angularVelocity := v\<rparr>)"

definition setSleepThreshold :: "nat \<Rightarrow> float32 \<Rightarrow> PxPhysics \<Rightarrow> PxPhysics option" where
  "setSleepThreshold h v = update_actor h (\<lambda>a. a\<lparr>sleepThreshold := v\<rparr>)"

definition setUserData :: "nat \<Rightarrow> nat \<Rightarrow> PxPhysics \<Rightarrow> PxPhysics option" where
  "setUserData h this = update_actor h (\<lambda>a. a\<lparr>userData := Some this\<rparr>)"

definition setMassAndUpdateInertia :: "nat \<Rightarrow> float32 \<Rightarrow> PxPhysics \<Rightarrow> PxPhysics option" where
  "setMassAndUpdateInertia h m = update_actor h (\<lambda>a. a\<lparr>actorMass := m\<rparr>)"

text \<open>A new actor has the given pose, no shape, no user data and is at rest; its mass
  and sleep threshold are the SDK's defaults, which \<open>SetHitbox\<close> overwrites before it
  returns.\<close>

definition new_actor :: "PxTransform \<Rightarrow> PxRigidDynamic" where
  "new_actor t =
     \<lparr>globalPose = t, linearVelocity = PxVec3_zero, angularVelocity = PxVec3_zero,
      actorMass = Finite 1, shapes = [], sleepThreshold = Finite 0, userData = None\<rparr>"

definition createRigidDynamic :: "PxTransform \<Rightarrow> PxPhysics \<Rightarrow> nat \<times> PxPhysics" where
  "createRigidDynamic t w =
     (next_actor w,
      w\<lparr>actors := (actors w)(next_actor w \<mapsto> new_actor t),
        next_actor := Suc (next_actor w)\<rparr>)"

text \<open>\<^verbatim>\<open>PxRigidActorExt::createExclusiveShape\<close>: the new shape is appended to the actor's
  shapes and its index is returned.\<close>

definition createExclusiveShape ::
  "nat \<Rightarrow> PxGeometry \<Rightarrow> PxMaterial \<Rightarrow> PxPhysics \<Rightarrow> (nat \<times> PxPhysics) option" where
  "createExclusiveShape h g mat w =
     (case actors w h of
        None \<Rightarrow> None
      | Some a \<Rightarrow>
          Some (length (shapes a),
                w\<lparr>actors := (actors w)(h \<mapsto> a\<lparr>shapes := shapes a @
                  [\<lparr>geometry = g, material = mat,
                    contactOffset = Finite 0, restOffset = Finite 0\<rparr>]\<rparr>)\<rparr>))"

definition update_shape ::
  "nat \<Rightarrow> nat \<Rightarrow> (PxShape \<Rightarrow> PxShape) \<Rightarrow> PxPhysics \<Rightarrow> PxPhysics option" where
  "update_shape h i f w =
     (case actors w h of
        None \<Rightarrow> None
      | Some a \<Rightarrow>
          if i < length (shapes a)
          then Some (w\<lparr>actors := (actors w)(h \<mapsto> a\<lparr>shapes := (shapes a)[i := f (shapes a ! i)]\<rparr>)\<rparr>)
          else None)"

definition setContactOffset :: "nat \<Rightarrow> nat \<Rightarrow> float32 \<Rightarrow> PxPhysics \<Rightarrow> PxPhysics option" where
  "setContactOffset h i v = update_shape h i (\<lambda>s. s\<lparr>contactOffset := v\<rparr>)"

definition setRestOffset :: "nat \<Rightarrow> nat \<Rightarrow> float32 \<Rightarrow> PxPhysics \<Rightarrow> PxPhysics option" where
  "setRestOffset h i v = update_shape h i (\<lambda>s. s\<lparr>restOffset := v\<rparr>)"

text \<open>\<^verbatim>\<open>PxRigidDynamic::release\<close>.\<close>

definition release :: "nat \<Rightarrow> PxPhysics \<Rightarrow> PxPhysics option" where
  "release h w =
     (case actors w h of
        None \<Rightarrow> None
      | Some a \<Rightarrow> Some (w\<lparr>actors := (actors w)(h := None)\<rparr>))"

section \<open>The entity\<close>

text \<open>The fields of \<^verbatim>\<open>class Entity\<close> (entity.h), in the order of their declaration.\<close>

record Entity =
  worldMatrix :: Matrix
  rotationQuat :: Quaternion
  position :: Vector3
  rotation :: Vector3
  scale :: Vector3
  velocity :: Vector3
  model :: "Model option"
  modelID :: ModelID
  mass :: float32
  hitbox :: "nat option"

text \<open>
  What the member functions reach besides the entity: the PhysX world behind
  \<^verbatim>\<open>Window::physicsManager\<close>, the log that \<^verbatim>\<open>RF_LOG_WARN\<close> writes to, and the render
  buffer behind \<^verbatim>\<open>Window::renderManager\<close>.
\<close>

datatype LogEntry = RF_LOG_WARN string

record World =
  ent :: Entity
  physics :: PxPhysics
  warnings :: "LogEntry list"
  renderBuffer :: "(Model \<times> Matrix) list"

text \<open>
  The functions of other modules that the entity calls and whose code is not among the
  sources: \<^verbatim>\<open>ModelManager::GetModel\<close>, \<^verbatim>\<open>ModelManager::GetModelMaterial\<close> and raylib's
  \<^verbatim>\<open>QuaternionToEuler\<close>. They are parameters of the model.
\<close>

record Externals =
  GetModel :: "ModelID \<Rightarrow> Model"
  GetModelMaterial :: "ModelID \<Rightarrow> PxMaterial"
  QuaternionToEuler :: "Quaternion \<Rightarrow> Vector3"

text \<open>
  \<^verbatim>\<open>Entity::Entity(Vector3 pos, ModelID _modelID)\<close>. The member initialisers of entity.h
  give every other field but \<^verbatim>\<open>worldMatrix\<close>, which the constructor leaves
  uninitialised: its content is whatever the memory held, the parameter \<open>uninit\<close>.
\<close>

definition Entity_ctor :: "Externals \<Rightarrow> Matrix \<Rightarrow> Vector3 \<Rightarrow> ModelID \<Rightarrow> Entity" where
  "Entity_ctor ext uninit pos mid =
     \<lparr>worldMatrix = uninit,
      rotationQuat = Quaternion (Finite 0) (Finite 0) (Finite 0) (Finite 1),
      position = pos,
      rotation = Vector3 (Finite 0) (Finite 0) (Finite 0),
      scale = Vector3 (Finite 1) (Finite 1) (Finite 1),
      velocity = Vector3 (Finite 0) (Finite 0) (Finite 0),
      model = Some (GetModel ext mid),
      modelID = mid,
      mass = Finite 10,
      hitbox = None\<rparr>"

text \<open>\<^verbatim>\<open>Entity::~Entity\<close>: the actor is released and the pointer cleared.\<close>

definition Entity_dtor :: "World \<Rightarrow> World option" where
  "Entity_dtor st =
     (case hitbox (ent st) of
        None \<Rightarrow> Some st
      | Some h \<Rightarrow> do {
          w \<leftarrow> release h (physics st);
          Some (st\<lparr>ent := (ent st)\<lparr>hitbox := None\<rparr>, physics := w\<rparr>)
        })"

text \<open>The sixteen assignments of \<^verbatim>\<open>PhysicsUpdate\<close> from the PhysX matrix to the raylib
  matrix; \<^verbatim>\<open>m15\<close> is the constant \<^verbatim>\<open>1.0f\<close>, not \<^verbatim>\<open>column3.w\<close>.\<close>

definition Matrix_of_PxMat44 :: "PxMat44 \<Rightarrow> Matrix" where
  "Matrix_of_PxMat44 physxMat =
     \<lparr>m0 = cx (column0 physxMat), m1 = cy (column0 physxMat),
      m2 = cz (column0 physxMat), m3 = cw (column0 physxMat),
      m4 = cx (column1 physxMat), m5 = cy (column1 physxMat),
      m6 = cz (column1 physxMat), m7 = cw (column1 physxMat),
      m8 = cx (column2 physxMat), m9 = cy (column2 physxMat),
      m10 = cz (column2 physxMat), m11 = cw (column2 physxMat),
      m12 = cx (column3 physxMat), m13 = cy (column3 physxMat),
      m14 = cz (column3 physxMat), m15 = Finite 1\<rparr>"

text \<open>\<^verbatim>\<open>Entity::PhysicsUpdate\<close> (pull-sync).\<close>

definition PhysicsUpdate :: "Externals \<Rightarrow> World \<Rightarrow> World option" where
  "PhysicsUpdate ext st =
     (case hitbox (ent st) of
        None \<Rightarrow> Some st
      | Some h \<Rightarrow> do {
          transform \<leftarrow> getGlobalPose (physics st) h;
          let pos = Vector3 (px (transform_p transform)) (py (transform_p transform))
                      (pz (transform_p transform));
          let quat = Quaternion (pqx (transform_q transform)) (pqy (transform_q transform))
                       (pqz (transform_q transform)) (pqw (transform_q transform));
          let eulerRadians = QuaternionToEuler ext quat;
          let rot = Vector3 (fmul (vx eulerRadians) RAD2DEG) (fmul (vy eulerRadians) RAD2DEG)
                      (fmul (vz eulerRadians) RAD2DEG);
          let physxMat = PxMat44_of_transform transform;
          v \<leftarrow> getLinearVelocity (physics st) h;
          Some (st\<lparr>ent := (ent st)
            \<lparr>position := pos, rotationQuat := quat, rotation := rot,
             worldMatrix := Matrix_of_PxMat44 physxMat,
             velocity := Vector3 (px v) (py v) (pz v)\<rparr>\<rparr>)
        })"

text \<open>\<^verbatim>\<open>Entity::Sync\<close> (push-sync).\<close>

definition Sync :: "World \<Rightarrow> World option" where
  "Sync st =
     (case hitbox (ent st) of
        None \<Rightarrow> Some st
      | Some h \<Rightarrow> do {
          let e = ent st;
          let q = PxQuat (qx (rotationQuat e)) (qy (rotationQuat e)) (qz (rotationQuat e))
                    (qw (rotationQuat e));
          w1 \<leftarrow> setGlobalPose h
                  (PxTransform (PxVec3 (vx (position e)) (vy (position e)) (vz (position e))) q)
                  (physics st);
          w2 \<leftarrow> setLinearVelocity h
                  (PxVec3 (vx (velocity e)) (vy (velocity e)) (vz (velocity e))) w1;
          Some (st\<lparr>physics := w2\<rparr>)
        })"

text \<open>\<^verbatim>\<open>Entity::Render\<close>.\<close>

definition Render :: "World \<Rightarrow> World" where
  "Render st =
     (case model (ent st) of
        None \<Rightarrow> st
      | Some m \<Rightarrow> st\<lparr>renderBuffer := renderBuffer st @ [(m, worldMatrix (ent st))]\<rparr>)"

text \<open>
  \<^verbatim>\<open>Entity::SetHitbox(PxGeometry* pgeometry)\<close>; \<open>this\<close> is the address of the entity, which
  the new actor keeps as its user data.
\<close>

definition SetHitbox :: "Externals \<Rightarrow> nat \<Rightarrow> PxGeometry option \<Rightarrow> World \<Rightarrow> World option" where
  "SetHitbox ext this pgeometry st =
     (case pgeometry of
        None \<Rightarrow> Some (st\<lparr>warnings := warnings st @ [RF_LOG_WARN ''Called with null geometry'']\<rparr>)
      | Some geom \<Rightarrow> do {
          let e0 = ent st;
          let e1 = (if \<not> isfinite (vx (position e0))
                    then e0\<lparr>position := Vector3 (Finite 0) (Finite 0) (Finite 0)\<rparr> else e0);
          let e2 = (if fle (mass e1) (Finite 0) then e1\<lparr>mass := Finite 1\<rparr> else e1);
          let initialTransform =
                PxTransform (PxVec3 (vx (position e2)) (vy (position e2)) (vz (position e2)))
                  PxIdentity;
          (h, w1) \<leftarrow> (case hitbox e2 of
                        None \<Rightarrow> do {
                          let (h, w) = createRigidDynamic initialTransform (physics st);
                          w' \<leftarrow> setUserData h this w;
                          Some (h, w')
                        }
                      | Some h \<Rightarrow> Some (h, physics st));
          let e3 = e2\<lparr>hitbox := Some h\<rparr>;
          let mat = GetModelMaterial ext (modelID e3);
          (shape, w2) \<leftarrow> createExclusiveShape h geom mat w1;
          w3 \<leftarrow> setContactOffset h shape (Finite (2 / 100)) w2;
          w4 \<leftarrow> setRestOffset h shape (Finite 0) w3;
          w5 \<leftarrow> setMassAndUpdateInertia h (mass e3) w4;
          w6 \<leftarrow> setLinearVelocity h PxVec3_zero w5;
          w7 \<leftarrow> setAngularVelocity h PxVec3_zero w6;
          w8 \<leftarrow> setSleepThreshold h (Finite (2 / 10)) w7;
          Some (st\<lparr>ent := e3, physics := w8\<rparr>)
        })"

text \<open>\<^verbatim>\<open>Entity::Update\<close> and \<^verbatim>\<open>Entity::Init\<close>: empty in the base class.\<close>

definition Update :: "World \<Rightarrow> World" where
  "Update st = st"

definition Init :: "World \<Rightarrow> World" where
  "Init st = st"

section \<open>Notions used in the statements\<close>

text \<open>Step 1 of \<open>SetHitbox\<close> on its own: the entity after the two checks of the initial
  state.\<close>

definition validated :: "Entity \<Rightarrow> Entity" where
  "validated e =
     (let e1 = (if \<not> isfinite (vx (position e))
                then e\<lparr>position := Vector3 (Finite 0) (Finite 0) (Finite 0)\<rparr> else e)
      in if fle (mass e1) (Finite 0) then e1\<lparr>mass := Finite 1\<rparr> else e1)"

text \<open>The shape that \<open>SetHitbox\<close> attaches, after its two offsets are set.\<close>

definition new_shape :: "Externals \<Rightarrow> Entity \<Rightarrow> PxGeometry \<Rightarrow> PxShape" where
  "new_shape ext e g =
     \<lparr>geometry = g, material = GetModelMaterial ext (modelID e),
      contactOffset = Finite (2 / 100), restOffset = Finite 0\<rparr>"

text \<open>The conversion \<^verbatim>\<open>PxVec3(v.x, v.y, v.z)\<close>.\<close>

definition PxVec3_of :: "Vector3 \<Rightarrow> PxVec3" where
  "PxVec3_of v = PxVec3 (vx v) (vy v) (vz v)"

text \<open>The life of an entity between its construction and its destruction is a sequence
  of calls of its member functions; \<open>calls\<close> runs such a sequence and stops at the first
  undefined behaviour. \<open>attached\<close> lists the geometries of the calls of \<open>SetHitbox\<close> with a
  non-null argument.\<close>

datatype Call =
  CallPhysicsUpdate | CallSync | CallRender | CallSetHitbox "PxGeometry option"
  | CallUpdate | CallInit

fun call :: "Externals \<Rightarrow> nat \<Rightarrow> Call \<Rightarrow> World \<Rightarrow> World option" where
  "call ext this CallPhysicsUpdate st = PhysicsUpdate ext st"
| "call ext this CallSync st = Sync st"
| "call ext this CallRender st = Some (Render st)"
| "call ext this (CallSetHitbox pgeometry) st = SetHitbox ext this pgeometry st"
| "call ext this CallUpdate st = Some (Update st)"
| "call ext this CallInit st = Some (Init st)"

fun calls :: "Externals \<Rightarrow> nat \<Rightarrow> Call list \<Rightarrow> World \<Rightarrow> World option" where
  "calls ext this [] st = Some st"
| "calls ext this (c # cs) st =
     (case call ext this c st of None \<Rightarrow> None | Some st1 \<Rightarrow> calls ext this cs st1)"

fun attached :: "Call list \<Rightarrow> PxGeometry list" where
  "attached [] = []"
| "attached (CallSetHitbox (Some g) # cs) = g # attached cs"
| "attached (c # cs) = attached cs"

text \<open>The translation column and the upper-left 3x3 block of a raylib matrix, the
  identity block, and the dot product of two PhysX vectors.\<close>

definition translation :: "Matrix \<Rightarrow> PxVec3" where
  "translation M = PxVec3 (m12 M) (m13 M) (m14 M)"

definition upper_left_3x3 :: "Matrix \<Rightarrow> PxMat33" where
  "upper_left_3x3 M =
     PxMat33 (PxVec3 (m0 M) (m1 M) (m2 M)) (PxVec3 (m4 M) (m5 M) (m6 M))
       (PxVec3 (m8 M) (m9 M) (m10 M))"

definition PxMat33_identity :: PxMat33 where
  "PxMat33_identity =
     PxMat33 (PxVec3 (Finite 1) (Finite 0) (Finite 0)) (PxVec3 (Finite 0) (Finite 1) (Finite 0))
       (PxVec3 (Finite 0) (Finite 0) (Finite 1))"

definition dot :: "PxVec3 \<Rightarrow> PxVec3 \<Rightarrow> float32" where
  "dot u v = fadd (fadd (fmul (px u) (px v)) (fmul (py u) (py v))) (fmul (pz u) (pz v))"

section \<open>Example states\<close>

definition ext0 :: Externals where
  "ext0 = \<lparr>GetModel = (\<lambda>i. i + 100), GetModelMaterial = (\<lambda>i. i + 200),
           QuaternionToEuler = (\<lambda>q. Vector3 (qx q) (qy q) (qz q))\<rparr>"

definition Matrix_zero :: Matrix where
  "Matrix_zero =
     \<lparr>m0 = Finite 0, m1 = Finite 0, m2 = Finite 0, m3 = Finite 0,
      m4 = Finite 0, m5 = Finite 0, m6 = Finite 0, m7 = Finite 0,
      m8 = Finite 0, m9 = Finite 0, m10 = Finite 0, m11 = Finite 0,
      m12 = Finite 0, m13 = Finite 0, m14 = Finite 0, m15 = Finite 0\<rparr>"

text \<open>An entity just constructed at \<open>pos\<close>, in a world with no actor.\<close>

definition constructed :: "Vector3 \<Rightarrow> World" where
  "constructed pos =
     \<lparr>ent = Entity_ctor ext0 Matrix_zero pos 3,
      physics = \<lparr>actors = Map.empty, next_actor = 0\<rparr>,
      warnings = [], renderBuffer = []\<rparr>"

text \<open>An actor at \<open>(1, 2, 3)\<close> with identity orientation, falling, and an entity that owns
  it and was moved to \<open>(5, 5, 5)\<close> by gameplay code.\<close>

definition actor0 :: PxRigidDynamic where
  "actor0 =
     \<lparr>globalPose = PxTransform (PxVec3 (Finite 1) (Finite 2) (Finite 3)) PxIdentity,
      linearVelocity = PxVec3 (Finite 0) (Finite (- 1)) (Finite 0),
      angularVelocity = PxVec3_zero, actorMass = Finite 10,
      shapes = [\<lparr>geometry = PxGeometry 0, material = 203,
                 contactOffset = Finite (2 / 100), restOffset = Finite 0\<rparr>],
      sleepThreshold = Finite (2 / 10), userData = Some 7\<rparr>"

definition bodied :: World where
  "bodied =
     \<lparr>ent = (Entity_ctor ext0 Matrix_zero (Vector3 (Finite 5) (Finite 5) (Finite 5)) 3)
              \<lparr>velocity := Vector3 (Finite 1) (Finite 0) (Finite 0), hitbox := Some 0\<rparr>,
      physics = \<lparr>actors = [0 \<mapsto> actor0], next_actor = 1\<rparr>,
      warnings = [], renderBuffer = []\<rparr>"

text \<open>Entities just constructed at the origin whose mass was then set to NaN and to
  \<open>-5\<close>.\<close>

definition nan_mass :: World where
  "nan_mass = (constructed (Vector3 (Finite 0) (Finite 0) (Finite 0)))
     \<lparr>ent := (ent (constructed (Vector3 (Finite 0) (Finite 0) (Finite 0))))\<lparr>mass := NaN\<rparr>\<rparr>"

definition negative_mass :: World where
  "negative_mass = (constructed (Vector3 (Finite 0) (Finite 0) (Finite 0)))
     \<lparr>ent := (ent (constructed (Vector3 (Finite 0) (Finite 0) (Finite 0))))
        \<lparr>mass := Finite (- 5)\<rparr>\<rparr>"

section \<open>The member functions, case by case\<close>

lemma validated_simps [simp]:
  "hitbox (validated e) = hitbox e" "modelID (validated e) = modelID e"
  "rotationQuat (validated e) = rotationQuat e" "rotation (validated e) = rotation e"
  "scale (validated e) = scale e" "velocity (validated e) = velocity e"
  "worldMatrix (validated e) = worldMatrix e" "model (validated e) = model e"
  by (simp_all add: validated_def Let_def)

lemma SetHitbox_existing:
  assumes "hitbox (ent st) = Some h" "actors (physics st) h = Some a"
  shows "SetHitbox ext this (Some g) st =
    Some (st\<lparr>ent := validated (ent st),
             physics := (physics st)\<lparr>actors := (actors (physics st))(h \<mapsto>
               a\<lparr>shapes := shapes a @ [new_shape ext (ent st) g],
                 actorMass := mass (validated (ent st)),
                 linearVelocity := PxVec3_zero, angularVelocity := PxVec3_zero,
                 sleepThreshold := Finite (2 / 10)\<rparr>)\<rparr>\<rparr>)"
  using assms
  by (simp add: SetHitbox_def validated_def new_shape_def Let_def createExclusiveShape_def
      setContactOffset_def setRestOffset_def update_shape_def setMassAndUpdateInertia_def
      setLinearVelocity_def setAngularVelocity_def setSleepThreshold_def update_actor_def)

lemma SetHitbox_dangling:
  assumes "hitbox (ent st) = Some h" "actors (physics st) h = None"
  shows "SetHitbox ext this (Some g) st = None"
  using assms
  by (simp add: SetHitbox_def Let_def createExclusiveShape_def)

lemma SetHitbox_new:
  assumes "hitbox (ent st) = None"
  shows "SetHitbox ext this (Some g) st =
    Some (st\<lparr>ent := (validated (ent st))\<lparr>hitbox := Some (next_actor (physics st))\<rparr>,
             physics := (physics st)\<lparr>actors := (actors (physics st))(next_actor (physics st) \<mapsto>
               \<lparr>globalPose = PxTransform (PxVec3_of (position (validated (ent st)))) PxIdentity,
                linearVelocity = PxVec3_zero, angularVelocity = PxVec3_zero,
                actorMass = mass (validated (ent st)),
                shapes = [new_shape ext (ent st) g],
                sleepThreshold = Finite (2 / 10),
                userData = Some this\<rparr>),
               next_actor := Suc (next_actor (physics st))\<rparr>\<rparr>)"
  using assms
  by (simp add: SetHitbox_def validated_def new_shape_def Let_def createExclusiveShape_def
      setContactOffset_def setRestOffset_def update_shape_def setMassAndUpdateInertia_def
      setLinearVelocity_def setAngularVelocity_def setSleepThreshold_def update_actor_def
      createRigidDynamic_def setUserData_def new_actor_def PxVec3_of_def)

lemma SetHitbox_null:
  "SetHitbox ext this None st =
     Some (st\<lparr>warnings := warnings st @ [RF_LOG_WARN ''Called with null geometry'']\<rparr>)"
  by (simp add: SetHitbox_def)

text \<open>A successful attach: the entity is the validated one with a body, which carries the
  validated mass and is at rest.\<close>

lemma SetHitbox_success:
  assumes "SetHitbox ext this (Some g) st = Some st'"
  shows "\<exists>h a. ent st' = (validated (ent st))\<lparr>hitbox := Some h\<rparr>
           \<and> (hitbox (ent st) = None \<or> hitbox (ent st) = Some h)
           \<and> actors (physics st') h = Some a
           \<and> actorMass a = mass (validated (ent st))
           \<and> linearVelocity a = PxVec3_zero \<and> angularVelocity a = PxVec3_zero
           \<and> warnings st' = warnings st \<and> renderBuffer st' = renderBuffer st"
proof (cases "hitbox (ent st)")
  case None
  from assms show ?thesis
    unfolding SetHitbox_new [OF None] using None by auto
next
  case (Some h)
  show ?thesis
  proof (cases "actors (physics st) h")
    case None
    with Some assms show ?thesis by (simp add: SetHitbox_dangling)
  next
    case (Some a)
    from assms show ?thesis
      unfolding SetHitbox_existing [OF \<open>hitbox (ent st) = Some h\<close> Some]
      using \<open>hitbox (ent st) = Some h\<close> by auto
  qed
qed

lemma PhysicsUpdate_body:
  assumes "hitbox (ent st) = Some h" "actors (physics st) h = Some a"
  shows "PhysicsUpdate ext st =
    Some (st\<lparr>ent := (ent st)
      \<lparr>position := Vector3 (px (transform_p (globalPose a))) (py (transform_p (globalPose a)))
                    (pz (transform_p (globalPose a))),
       rotationQuat := Quaternion (pqx (transform_q (globalPose a))) (pqy (transform_q (globalPose a)))
                    (pqz (transform_q (globalPose a))) (pqw (transform_q (globalPose a))),
       rotation := Vector3
         (fmul (vx (QuaternionToEuler ext (Quaternion (pqx (transform_q (globalPose a)))
            (pqy (transform_q (globalPose a))) (pqz (transform_q (globalPose a)))
            (pqw (transform_q (globalPose a)))))) RAD2DEG)
         (fmul (vy (QuaternionToEuler ext (Quaternion (pqx (transform_q (globalPose a)))
            (pqy (transform_q (globalPose a))) (pqz (transform_q (globalPose a)))
            (pqw (transform_q (globalPose a)))))) RAD2DEG)
         (fmul (vz (QuaternionToEuler ext (Quaternion (pqx (transform_q (globalPose a)))
            (pqy (transform_q (globalPose a))) (pqz (transform_q (globalPose a)))
            (pqw (transform_q (globalPose a)))))) RAD2DEG),
       worldMatrix := Matrix_of_PxMat44 (PxMat44_of_transform (globalPose a)),
       velocity := Vector3 (px (linearVelocity a)) (py (linearVelocity a))
                    (pz (linearVelocity a))\<rparr>\<rparr>)"
  using assms
  by (simp add: PhysicsUpdate_def getGlobalPose_def getLinearVelocity_def Let_def)

lemma PhysicsUpdate_dangling:
  assumes "hitbox (ent st) = Some h" "actors (physics st) h = None"
  shows "PhysicsUpdate ext st = None"
  using assms by (simp add: PhysicsUpdate_def getGlobalPose_def)

lemma Sync_body:
  assumes "hitbox (ent st) = Some h" "actors (physics st) h = Some a"
  shows "Sync st =
    Some (st\<lparr>physics := (physics st)\<lparr>actors := (actors (physics st))(h \<mapsto>
      a\<lparr>globalPose := PxTransform (PxVec3_of (position (ent st)))
           (PxQuat (qx (rotationQuat (ent st))) (qy (rotationQuat (ent st)))
              (qz (rotationQuat (ent st))) (qw (rotationQuat (ent st)))),
        linearVelocity := PxVec3_of (velocity (ent st))\<rparr>)\<rparr>\<rparr>)"
  using assms
  by (simp add: Sync_def setGlobalPose_def setLinearVelocity_def update_actor_def Let_def
      PxVec3_of_def)

lemma Sync_dangling:
  assumes "hitbox (ent st) = Some h" "actors (physics st) h = None"
  shows "Sync st = None"
  using assms by (simp add: Sync_def setGlobalPose_def update_actor_def)

section \<open>No physical body: both synchronisations do nothing\<close>

text \<open>
  C1. For an entity whose \<open>hitbox\<close> is null, \<open>PhysicsUpdate\<close> (pull-sync) and \<open>Sync\<close>
  (push-sync) return with the whole state as it was: every field of the entity, the
  physical world, the log and the render buffer.
\<close>

theorem no_body_syncs_are_noops:
  assumes "hitbox (ent st) = None"
  shows "PhysicsUpdate ext st = Some st \<and> Sync st = Some st"
  using assms by (simp add: PhysicsUpdate_def Sync_def)

text \<open>The scenario of the specification: an entity at \<open>(5, 5, 5)\<close> that never got a
  body.\<close>

theorem no_body_syncs_are_noops_witness:
  "hitbox (ent (constructed (Vector3 (Finite 5) (Finite 5) (Finite 5)))) = None
   \<and> PhysicsUpdate ext0 (constructed (Vector3 (Finite 5) (Finite 5) (Finite 5)))
       = Some (constructed (Vector3 (Finite 5) (Finite 5) (Finite 5)))
   \<and> Sync (constructed (Vector3 (Finite 5) (Finite 5) (Finite 5)))
       = Some (constructed (Vector3 (Finite 5) (Finite 5) (Finite 5)))"
  using no_body_syncs_are_noops [of "constructed (Vector3 (Finite 5) (Finite 5) (Finite 5))" ext0]
  by (simp add: constructed_def Entity_ctor_def)

section \<open>Construction\<close>

text \<open>
  C9. The constructor yields an entity at the given position with zero velocity, the
  identity quaternion \<open>(0, 0, 0, 1)\<close>, unit scale, the positive default mass \<open>10\<close>, the
  model that the model manager resolves from the identifier, the identifier itself, and
  no physical body.
\<close>

theorem Entity_ctor_postcondition:
  "position (Entity_ctor ext uninit p m) = p
   \<and> velocity (Entity_ctor ext uninit p m) = Vector3 (Finite 0) (Finite 0) (Finite 0)
   \<and> rotationQuat (Entity_ctor ext uninit p m)
       = Quaternion (Finite 0) (Finite 0) (Finite 0) (Finite 1)
   \<and> scale (Entity_ctor ext uninit p m) = Vector3 (Finite 1) (Finite 1) (Finite 1)
   \<and> mass (Entity_ctor ext uninit p m) = Finite 10
   \<and> flt (Finite 0) (mass (Entity_ctor ext uninit p m))
   \<and> model (Entity_ctor ext uninit p m) = Some (GetModel ext m)
   \<and> modelID (Entity_ctor ext uninit p m) = m
   \<and> hitbox (Entity_ctor ext uninit p m) = None"
  by (simp add: Entity_ctor_def flt_def)

section \<open>Attaching with a null geometry\<close>

text \<open>
  C3. \<open>SetHitbox\<close> with a null geometry returns after logging the warning
  "Called with null geometry": the entity, with its body reference and every other
  field, and the physical world are as before, so no body and no shape is created.
\<close>

theorem SetHitbox_null_geometry_aborts:
  "\<exists>st'. SetHitbox ext this None st = Some st'
     \<and> ent st' = ent st \<and> physics st' = physics st \<and> renderBuffer st' = renderBuffer st
     \<and> warnings st' = warnings st @ [RF_LOG_WARN ''Called with null geometry'']"
  by (simp add: SetHitbox_def)

section \<open>Pull-sync twice\<close>

text \<open>
  C6. When \<open>PhysicsUpdate\<close> returns the state \<open>st1\<close>, a second call right after it (the
  physical world is the one the first call read) returns \<open>st1\<close> again: position,
  orientation, Euler angles, world matrix and velocity, as every other part of the state,
  are those of the first call.
\<close>

theorem PhysicsUpdate_idempotent:
  assumes "PhysicsUpdate ext st = Some st1"
  shows "PhysicsUpdate ext st1 = Some st1"
proof (cases "hitbox (ent st)")
  case None
  with assms show ?thesis by (auto simp: PhysicsUpdate_def)
next
  case (Some h)
  show ?thesis
  proof (cases "actors (physics st) h")
    case None
    with Some assms show ?thesis by (simp add: PhysicsUpdate_dangling)
  next
    case (Some a)
    note hb = \<open>hitbox (ent st) = Some h\<close>
    from assms have st1: "hitbox (ent st1) = Some h" "actors (physics st1) h = Some a"
      unfolding PhysicsUpdate_body [OF hb Some] using hb Some by auto
    from assms show ?thesis
      unfolding PhysicsUpdate_body [OF hb Some] PhysicsUpdate_body [OF st1]
      by auto
  qed
qed


theorem PhysicsUpdate_idempotent_witness:
  "\<exists>st1. PhysicsUpdate ext0 bodied = Some st1 \<and> PhysicsUpdate ext0 st1 = Some st1
     \<and> position (ent st1) = Vector3 (Finite 1) (Finite 2) (Finite 3)"
proof -
  have a: "hitbox (ent bodied) = Some 0" "actors (physics bodied) 0 = Some actor0"
    by (simp_all add: bodied_def)
  obtain st1 where p: "PhysicsUpdate ext0 bodied = Some st1"
    and q: "position (ent st1) = Vector3 (Finite 1) (Finite 2) (Finite 3)"
    using PhysicsUpdate_body [OF a, of ext0] by (simp add: actor0_def)
  from PhysicsUpdate_idempotent [OF p] p q show ?thesis by blast
qed

section \<open>Push-sync, then pull-sync\<close>

text \<open>
  C5. For an entity with a physical body, \<open>Sync\<close> followed at once by \<open>PhysicsUpdate\<close>
  returns, and the entity's position, orientation quaternion and velocity are then
  exactly the ones that were pushed. The pose store keeps what is written to it; no
  arithmetic is done on the way.
\<close>

theorem push_then_pull_roundtrip:
  assumes "hitbox (ent st) = Some h" "actors (physics st) h = Some a"
  shows "\<exists>st1 st2. Sync st = Some st1 \<and> PhysicsUpdate ext st1 = Some st2
           \<and> position (ent st2) = position (ent st)
           \<and> rotationQuat (ent st2) = rotationQuat (ent st)
           \<and> velocity (ent st2) = velocity (ent st)"
proof -
  define a1 where "a1 = a\<lparr>globalPose := PxTransform (PxVec3_of (position (ent st)))
           (PxQuat (qx (rotationQuat (ent st))) (qy (rotationQuat (ent st)))
              (qz (rotationQuat (ent st))) (qw (rotationQuat (ent st)))),
        linearVelocity := PxVec3_of (velocity (ent st))\<rparr>"
  define st1 where "st1 = st\<lparr>physics := (physics st)\<lparr>actors := (actors (physics st))(h \<mapsto> a1)\<rparr>\<rparr>"
  have s: "Sync st = Some st1"
    unfolding st1_def a1_def by (rule Sync_body [OF assms])
  have hb: "hitbox (ent st1) = Some h" using assms by (simp add: st1_def)
  have ac: "actors (physics st1) h = Some a1" by (simp add: st1_def)
  obtain st2 where p: "PhysicsUpdate ext st1 = Some st2"
    and e2: "position (ent st2) = Vector3 (px (transform_p (globalPose a1)))
               (py (transform_p (globalPose a1))) (pz (transform_p (globalPose a1)))"
            "rotationQuat (ent st2) = Quaternion (pqx (transform_q (globalPose a1)))
               (pqy (transform_q (globalPose a1))) (pqz (transform_q (globalPose a1)))
               (pqw (transform_q (globalPose a1)))"
            "velocity (ent st2) = Vector3 (px (linearVelocity a1)) (py (linearVelocity a1))
               (pz (linearVelocity a1))"
    using PhysicsUpdate_body [OF hb ac, of ext] by simp
  have "position (ent st2) = position (ent st)"
    "rotationQuat (ent st2) = rotationQuat (ent st)"
    "velocity (ent st2) = velocity (ent st)"
    using e2 by (simp_all add: a1_def PxVec3_of_def)
  with s p show ?thesis by blast
qed


theorem push_then_pull_roundtrip_witness:
  "hitbox (ent bodied) = Some 0 \<and> actors (physics bodied) 0 = Some actor0
   \<and> (\<exists>st1 st2. Sync bodied = Some st1 \<and> PhysicsUpdate ext0 st1 = Some st2
        \<and> position (ent st2) = Vector3 (Finite 5) (Finite 5) (Finite 5)
        \<and> rotationQuat (ent st2) = Quaternion (Finite 0) (Finite 0) (Finite 0) (Finite 1)
        \<and> velocity (ent st2) = Vector3 (Finite 1) (Finite 0) (Finite 0))"
proof -
  have a: "hitbox (ent bodied) = Some 0" "actors (physics bodied) 0 = Some actor0"
    by (simp_all add: bodied_def)
  have "position (ent bodied) = Vector3 (Finite 5) (Finite 5) (Finite 5)"
    "rotationQuat (ent bodied) = Quaternion (Finite 0) (Finite 0) (Finite 0) (Finite 1)"
    "velocity (ent bodied) = Vector3 (Finite 1) (Finite 0) (Finite 0)"
    by (simp_all add: bodied_def Entity_ctor_def)
  with push_then_pull_roundtrip [OF a, of ext0] a show ?thesis by simp
qed

section \<open>Sanitising the initial state\<close>

lemma fle_zero_cases: "\<not> fle m (Finite 0) \<Longrightarrow> m \<noteq> NaN \<Longrightarrow> flt (Finite 0) m"
  by (cases m) (auto simp: flt_def)

lemma mass_validated:
  "mass (validated e) = (if fle (mass e) (Finite 0) then Finite 1 else mass e)"
  by (simp add: validated_def Let_def)

lemma position_validated:
  "position (validated e) =
     (if isfinite (vx (position e)) then position e
      else Vector3 (Finite 0) (Finite 0) (Finite 0))"
  by (simp add: validated_def Let_def)

lemma nonfinite_x_corrected:
  assumes "\<not> isfinite (vx (position (ent st)))" "hitbox (ent st) = None"
  shows "\<exists>st'. SetHitbox ext this (Some g) st = Some st'
     \<and> position (ent st') = Vector3 (Finite 0) (Finite 0) (Finite 0)
     \<and> hitbox (ent st') = Some (next_actor (physics st))
     \<and> getGlobalPose (physics st') (next_actor (physics st))
         = Some (PxTransform PxVec3_zero PxIdentity)"
  unfolding SetHitbox_new [OF assms(2)] using assms(1)
  by (simp add: position_validated getGlobalPose_def PxVec3_of_def PxVec3_zero_def)

text \<open>
  C2. The specification has a position with a non-finite component, whichever it is,
  reset to the origin before the body is created. \<open>SetHitbox\<close> tests \<^verbatim>\<open>position.x\<close>
  only: for an entity constructed at \<open>(0, NaN, 0)\<close> the call succeeds, the position keeps
  its NaN, and the body is created at \<open>(0, NaN, 0)\<close>. (When \<open>x\<close> itself is not finite the
  position is reset and the body is created at the origin: \<open>nonfinite_x_corrected\<close>.)
\<close>

theorem nonfinite_y_not_corrected:
  "\<exists>st'. SetHitbox ext0 7 (Some (PxGeometry 0))
            (constructed (Vector3 (Finite 0) NaN (Finite 0))) = Some st'
     \<and> position (ent st') = Vector3 (Finite 0) NaN (Finite 0)
     \<and> hitbox (ent st') = Some 0
     \<and> getGlobalPose (physics st') 0
         = Some (PxTransform (PxVec3 (Finite 0) NaN (Finite 0)) PxIdentity)"
proof -
  have "hitbox (ent (constructed (Vector3 (Finite 0) NaN (Finite 0)))) = None"
    by (simp add: constructed_def Entity_ctor_def)
  from SetHitbox_new [OF this, of ext0 7 "PxGeometry 0"] show ?thesis
    by (simp add: constructed_def Entity_ctor_def validated_def Let_def getGlobalPose_def
        PxVec3_of_def)
qed

text \<open>
  C8, in the form that holds. After a successful \<open>SetHitbox\<close> the entity's mass is \<open>1\<close>
  when it was \<open>\<le> 0\<close> before the call and is unchanged otherwise; it is never \<open>\<le> 0\<close>, and
  it is strictly positive whenever the mass before the call was not a NaN. The body's
  mass is set from this value.
\<close>

theorem SetHitbox_mass_sanitized:
  assumes "SetHitbox ext this (Some g) st = Some st'"
  shows "mass (ent st') = (if fle (mass (ent st)) (Finite 0) then Finite 1 else mass (ent st))
     \<and> \<not> fle (mass (ent st')) (Finite 0)
     \<and> (mass (ent st) \<noteq> NaN \<longrightarrow> flt (Finite 0) (mass (ent st')))
     \<and> (\<exists>h a. hitbox (ent st') = Some h \<and> actors (physics st') h = Some a
              \<and> actorMass a = mass (ent st'))"
proof -
  from SetHitbox_success [OF assms] obtain h a where
    e: "ent st' = (validated (ent st))\<lparr>hitbox := Some h\<rparr>"
    and a: "actors (physics st') h = Some a" "actorMass a = mass (validated (ent st))"
    by blast
  have m: "mass (ent st') = (if fle (mass (ent st)) (Finite 0) then Finite 1 else mass (ent st))"
    by (simp add: e mass_validated)
  have n: "\<not> fle (mass (ent st')) (Finite 0)"
    unfolding m by simp
  have p: "flt (Finite 0) (mass (ent st'))" if "mass (ent st) \<noteq> NaN"
    using n that fle_zero_cases [of "mass (ent st')"] by (simp add: m split: if_splits)
  have "hitbox (ent st') = Some h \<and> actors (physics st') h = Some a \<and> actorMass a = mass (ent st')"
    using e a by simp
  with m n p show ?thesis by blast
qed

theorem SetHitbox_mass_sanitized_witness:
  "\<exists>st'. SetHitbox ext0 7 (Some (PxGeometry 0)) negative_mass = Some st'
     \<and> fle (mass (ent negative_mass)) (Finite 0)
     \<and> mass (ent st') = Finite 1 \<and> flt (Finite 0) (mass (ent st'))
     \<and> (\<exists>h a. hitbox (ent st') = Some h \<and> actors (physics st') h = Some a
              \<and> actorMass a = Finite 1)"
proof -
  have h: "hitbox (ent negative_mass) = None"
    by (simp add: negative_mass_def constructed_def Entity_ctor_def)
  have m: "mass (ent negative_mass) = Finite (- 5)"
    by (simp add: negative_mass_def)
  from SetHitbox_new [OF h, of ext0 7 "PxGeometry 0"]
  obtain st' where s: "SetHitbox ext0 7 (Some (PxGeometry 0)) negative_mass = Some st'"
    by simp
  from SetHitbox_mass_sanitized [OF s] m s show ?thesis
    by auto
qed

text \<open>
  C8 with "the mass is strictly positive" for every entity fails on a NaN:
  \<^verbatim>\<open>mass <= 0.0f\<close> is false for a NaN mass, which is therefore kept, and a NaN is not
  strictly positive.
\<close>

theorem NaN_mass_counterexample:
  "\<exists>st'. SetHitbox ext0 7 (Some (PxGeometry 0)) nan_mass = Some st'
     \<and> mass (ent st') = NaN \<and> \<not> flt (Finite 0) (mass (ent st'))"
proof -
  have "hitbox (ent nan_mass) = None"
    by (simp add: nan_mass_def constructed_def Entity_ctor_def)
  from SetHitbox_new [OF this, of ext0 7 "PxGeometry 0"] show ?thesis
    by (simp add: nan_mass_def constructed_def validated_def Let_def flt_def)
qed

section \<open>What a successful attach leaves alone\<close>

text \<open>
  C10. A successful \<open>SetHitbox\<close> leaves the entity's orientation, Euler angles, scale,
  velocity, world matrix, model and model identifier as they were. The position changes
  only by the reset to the origin when \<^verbatim>\<open>position.x\<close> is not finite, the mass only by the
  reset to \<open>1\<close> when it was \<open>\<le> 0\<close>, the body reference only from null to the new body. The
  body's linear and angular velocities are zero after the call, while the entity's own
  velocity keeps its value.
\<close>

theorem SetHitbox_frame:
  assumes "SetHitbox ext this (Some g) st = Some st'"
  shows "rotationQuat (ent st') = rotationQuat (ent st)
     \<and> rotation (ent st') = rotation (ent st)
     \<and> scale (ent st') = scale (ent st)
     \<and> velocity (ent st') = velocity (ent st)
     \<and> worldMatrix (ent st') = worldMatrix (ent st)
     \<and> model (ent st') = model (ent st)
     \<and> modelID (ent st') = modelID (ent st)
     \<and> position (ent st') =
         (if isfinite (vx (position (ent st))) then position (ent st)
          else Vector3 (Finite 0) (Finite 0) (Finite 0))
     \<and> mass (ent st') = (if fle (mass (ent st)) (Finite 0) then Finite 1 else mass (ent st))
     \<and> (case hitbox (ent st) of None \<Rightarrow> hitbox (ent st') \<noteq> None
         | Some h \<Rightarrow> hitbox (ent st') = Some h)
     \<and> (\<exists>h a. hitbox (ent st') = Some h \<and> actors (physics st') h = Some a
              \<and> linearVelocity a = PxVec3_zero \<and> angularVelocity a = PxVec3_zero)"
proof -
  from SetHitbox_success [OF assms] obtain h a where
    e: "ent st' = (validated (ent st))\<lparr>hitbox := Some h\<rparr>"
    and hb: "hitbox (ent st) = None \<or> hitbox (ent st) = Some h"
    and a: "actors (physics st') h = Some a" "linearVelocity a = PxVec3_zero"
      "angularVelocity a = PxVec3_zero"
    by blast
  have 1: "rotationQuat (ent st') = rotationQuat (ent st)" "rotation (ent st') = rotation (ent st)"
    "scale (ent st') = scale (ent st)" "velocity (ent st') = velocity (ent st)"
    "worldMatrix (ent st') = worldMatrix (ent st)" "model (ent st') = model (ent st)"
    "modelID (ent st') = modelID (ent st)"
    by (simp_all add: e)
  have 2: "position (ent st') =
         (if isfinite (vx (position (ent st))) then position (ent st)
          else Vector3 (Finite 0) (Finite 0) (Finite 0))"
    by (simp add: e position_validated)
  have 3: "mass (ent st') = (if fle (mass (ent st)) (Finite 0) then Finite 1 else mass (ent st))"
    by (simp add: e mass_validated)
  have 4: "case hitbox (ent st) of None \<Rightarrow> hitbox (ent st') \<noteq> None
         | Some h \<Rightarrow> hitbox (ent st') = Some h"
    using hb by (auto simp: e)
  have 5: "\<exists>h a. hitbox (ent st') = Some h \<and> actors (physics st') h = Some a
              \<and> linearVelocity a = PxVec3_zero \<and> angularVelocity a = PxVec3_zero"
    using a e by simp
  from 1 2 3 4 5 show ?thesis by blast
qed


theorem SetHitbox_frame_witness:
  "\<exists>st'. SetHitbox ext0 7 (Some (PxGeometry 1)) bodied = Some st'
     \<and> velocity (ent st') = Vector3 (Finite 1) (Finite 0) (Finite 0)
     \<and> position (ent st') = Vector3 (Finite 5) (Finite 5) (Finite 5)
     \<and> mass (ent st') = Finite 10
     \<and> hitbox (ent st') = Some 0
     \<and> (\<exists>a. actors (physics st') 0 = Some a
             \<and> linearVelocity a = PxVec3_zero \<and> angularVelocity a = PxVec3_zero)"
proof -
  have a: "hitbox (ent bodied) = Some 0" "actors (physics bodied) 0 = Some actor0"
    by (simp_all add: bodied_def)
  have e: "velocity (ent bodied) = Vector3 (Finite 1) (Finite 0) (Finite 0)"
    "position (ent bodied) = Vector3 (Finite 5) (Finite 5) (Finite 5)"
    "mass (ent bodied) = Finite 10"
    by (simp_all add: bodied_def Entity_ctor_def)
  from SetHitbox_existing [OF a, of ext0 7 "PxGeometry 1"]
  obtain st' where s: "SetHitbox ext0 7 (Some (PxGeometry 1)) bodied = Some st'"
    by simp
  from SetHitbox_frame [OF s] a e s show ?thesis
    by auto
qed

section \<open>One body per entity\<close>

lemma attached_Cons: "attached (c # cs) = attached [c] @ attached cs"
proof (cases c)
  case (CallSetHitbox pg)
  then show ?thesis by (cases pg) simp_all
qed simp_all

lemma attached_single: "attached [c] \<noteq> [] \<Longrightarrow> \<exists>g. c = CallSetHitbox (Some g)"
proof (cases c)
  case (CallSetHitbox pg)
  then show "attached [c] \<noteq> [] \<Longrightarrow> ?thesis" by (cases pg) simp_all
qed simp_all

lemma call_keeps_body:
  assumes "hitbox (ent st) = Some h" "call ext this c st = Some st1"
  shows "hitbox (ent st1) = Some h \<and> next_actor (physics st1) = next_actor (physics st)
     \<and> map_option (map geometry \<circ> shapes) (actors (physics st1) h)
         = map_option (\<lambda>a. map geometry (shapes a) @ attached [c]) (actors (physics st) h)"
proof (cases "actors (physics st) h")
  case None
  show ?thesis
  proof (cases c)
    case (CallSetHitbox pg)
    with assms None show ?thesis
      by (cases pg) (auto simp: SetHitbox_null SetHitbox_dangling)
  qed (use assms None in \<open>auto simp: PhysicsUpdate_dangling Sync_dangling Render_def
        Update_def Init_def split: option.splits\<close>)
next
  case (Some a)
  show ?thesis
  proof (cases c)
    case CallPhysicsUpdate
    with assms Some show ?thesis
      by (auto simp: PhysicsUpdate_body [OF assms(1) Some])
  next
    case CallSync
    with assms Some show ?thesis
      by (auto simp: Sync_body [OF assms(1) Some])
  next
    case (CallSetHitbox pg)
    with assms Some show ?thesis
      by (cases pg) (auto simp: SetHitbox_null SetHitbox_existing [OF assms(1) Some]
          new_shape_def)
  qed (use assms Some in \<open>auto simp: Render_def Update_def Init_def split: option.splits\<close>)
qed

lemma calls_keeps_body:
  assumes "hitbox (ent st) = Some h" "calls ext this cs st = Some st'"
  shows "hitbox (ent st') = Some h \<and> next_actor (physics st') = next_actor (physics st)
     \<and> map_option (map geometry \<circ> shapes) (actors (physics st') h)
         = map_option (\<lambda>a. map geometry (shapes a) @ attached cs) (actors (physics st) h)"
  using assms
proof (induction cs arbitrary: st)
  case Nil
  then show ?case by (simp add: option.map_ident comp_def)
next
  case (Cons c cs)
  from Cons.prems(2) obtain st1 where c: "call ext this c st = Some st1"
    and r: "calls ext this cs st1 = Some st'"
    by (auto split: option.splits)
  note k = call_keeps_body [OF Cons.prems(1) c]
  from k have hb: "hitbox (ent st1) = Some h" by simp
  note ih = Cons.IH [OF hb r]
  have "map_option (map geometry \<circ> shapes) (actors (physics st') h)
      = map_option (\<lambda>a. map geometry (shapes a) @ attached (c # cs)) (actors (physics st) h)"
  proof (cases "actors (physics st) h")
    case None
    with k have "actors (physics st1) h = None" by simp
    with ih None show ?thesis by simp
  next
    case (Some a)
    with k obtain a1 where a1: "actors (physics st1) h = Some a1"
      "map geometry (shapes a1) = map geometry (shapes a) @ attached [c]"
      by auto
    with ih Some show ?thesis by (simp add: attached_Cons [of c cs])
  qed
  moreover from ih k have "hitbox (ent st') = Some h"
    "next_actor (physics st') = next_actor (physics st)"
    by simp_all
  ultimately show ?case by blast
qed

lemma call_without_body:
  assumes "hitbox (ent st) = None" "attached [c] = []" "call ext this c st = Some st1"
  shows "hitbox (ent st1) = None \<and> physics st1 = physics st"
proof (cases c)
  case (CallSetHitbox pg)
  with assms show ?thesis by (cases pg) (auto simp: SetHitbox_null)
qed (use assms in \<open>auto simp: PhysicsUpdate_def Sync_def Render_def Update_def Init_def
      split: option.splits\<close>)

text \<open>
  C4. Over any sequence of member-function calls that runs to its end: an entity that has
  a body keeps that very body reference, no further actor is created, and the
  geometries of the successful \<open>SetHitbox\<close> calls are appended, in order, to the shapes of
  that body. An entity without a body stays without one as long as no \<open>SetHitbox\<close> call
  has a non-null geometry; otherwise exactly one actor is created, by the first such
  call, it is the entity's body at the end, and it carries one shape for each such call.
\<close>

theorem one_body_per_entity:
  assumes "calls ext this cs st = Some st'"
  shows "case hitbox (ent st) of
      Some h \<Rightarrow>
        hitbox (ent st') = Some h \<and> next_actor (physics st') = next_actor (physics st)
        \<and> map_option (map geometry \<circ> shapes) (actors (physics st') h)
            = map_option (\<lambda>a. map geometry (shapes a) @ attached cs) (actors (physics st) h)
    | None \<Rightarrow>
        if attached cs = []
        then hitbox (ent st') = None \<and> next_actor (physics st') = next_actor (physics st)
        else hitbox (ent st') = Some (next_actor (physics st))
           \<and> next_actor (physics st') = Suc (next_actor (physics st))
           \<and> map_option (map geometry \<circ> shapes) (actors (physics st') (next_actor (physics st)))
               = Some (attached cs)"
proof (cases "hitbox (ent st)")
  case (Some h)
  with calls_keeps_body [OF Some assms] show ?thesis by simp
next
  case None
  have "if attached cs = []
        then hitbox (ent st') = None \<and> next_actor (physics st') = next_actor (physics st)
        else hitbox (ent st') = Some (next_actor (physics st))
           \<and> next_actor (physics st') = Suc (next_actor (physics st))
           \<and> map_option (map geometry \<circ> shapes) (actors (physics st') (next_actor (physics st)))
               = Some (attached cs)"
    using None assms
  proof (induction cs arbitrary: st)
    case Nil
    then show ?case by simp
  next
    case (Cons c cs)
    from Cons.prems(2) obtain st1 where c: "call ext this c st = Some st1"
      and r: "calls ext this cs st1 = Some st'"
      by (auto split: option.splits)
    show ?case
    proof (cases "attached [c] = []")
      case True
      from call_without_body [OF Cons.prems(1) True c]
      have 1: "hitbox (ent st1) = None" "physics st1 = physics st" by simp_all
      have ac: "attached (c # cs) = attached cs"
        using True attached_Cons [of c cs] by simp
      from Cons.IH [OF 1(1) r] show ?thesis
        unfolding ac 1(2) .
    next
      case False
      then obtain g where g: "c = CallSetHitbox (Some g)"
        using attached_single [of c] by blast
      let ?n = "next_actor (physics st)"
      from c have s: "SetHitbox ext this (Some g) st = Some st1" by (simp add: g)
      from s have 1: "hitbox (ent st1) = Some ?n" "next_actor (physics st1) = Suc ?n"
        "map_option (map geometry \<circ> shapes) (actors (physics st1) ?n) = Some [g]"
        unfolding SetHitbox_new [OF Cons.prems(1)] by (auto simp: new_shape_def)
      from calls_keeps_body [OF 1(1) r] 1 show ?thesis
        by (auto simp: g)
    qed
  qed
  with None show ?thesis by simp
qed


theorem one_body_per_entity_witness:
  "\<exists>st'. calls ext0 7
       [CallSetHitbox (Some (PxGeometry 1)), CallPhysicsUpdate, CallSetHitbox None,
        CallSetHitbox (Some (PxGeometry 2)), CallSync, CallRender]
       (constructed (Vector3 (Finite 0) (Finite 0) (Finite 0))) = Some st'
     \<and> hitbox (ent st') = Some 0 \<and> next_actor (physics st') = 1
     \<and> map_option (map geometry \<circ> shapes) (actors (physics st') 0)
         = Some [PxGeometry 1, PxGeometry 2]"
proof -
  let ?st = "constructed (Vector3 (Finite 0) (Finite 0) (Finite 0))"
  let ?cs = "[CallSetHitbox (Some (PxGeometry 1)), CallPhysicsUpdate, CallSetHitbox None,
        CallSetHitbox (Some (PxGeometry 2)), CallSync, CallRender]"
  have h: "hitbox (ent ?st) = None" "next_actor (physics ?st) = 0"
    by (simp_all add: constructed_def Entity_ctor_def)
  obtain st1 where 1: "call ext0 7 (CallSetHitbox (Some (PxGeometry 1))) ?st = Some st1"
    and b1: "hitbox (ent st1) = Some 0"
      "actors (physics st1) 0 \<noteq> None"
    using SetHitbox_new [OF h(1), of ext0 7 "PxGeometry 1"] h(2) by simp
  from b1 obtain a1 where a1: "actors (physics st1) 0 = Some a1" by auto
  obtain st2 where 2: "call ext0 7 CallPhysicsUpdate st1 = Some st2"
    and b2: "hitbox (ent st2) = Some 0" "actors (physics st2) 0 \<noteq> None"
    using PhysicsUpdate_body [OF b1(1) a1, of ext0] b1(1) a1 by simp
  obtain st3 where 3: "call ext0 7 (CallSetHitbox None) st2 = Some st3"
    and b3: "hitbox (ent st3) = Some 0" "actors (physics st3) 0 \<noteq> None"
    using SetHitbox_null [of ext0 7 st2] b2 by simp
  from b3 obtain a3 where a3: "actors (physics st3) 0 = Some a3" by auto
  obtain st4 where 4: "call ext0 7 (CallSetHitbox (Some (PxGeometry 2))) st3 = Some st4"
    and b4: "hitbox (ent st4) = Some 0" "actors (physics st4) 0 \<noteq> None"
    using SetHitbox_existing [OF b3(1) a3, of ext0 7 "PxGeometry 2"] b3(1) by simp
  from b4 obtain a4 where a4: "actors (physics st4) 0 = Some a4" by auto
  obtain st5 where 5: "call ext0 7 CallSync st4 = Some st5"
    using Sync_body [OF b4(1) a4] by simp
  have r: "calls ext0 7 ?cs ?st = Some (Render st5)"
    using 1 2 3 4 5 by simp
  from one_body_per_entity [OF r] h r show ?thesis
    by simp
qed

section \<open>The world matrix\<close>

lemma PxMat33_of_quat_identity: "PxMat33_of_quat PxIdentity = PxMat33_identity"
  by (simp add: PxMat33_of_quat_def PxIdentity_def PxMat33_identity_def fsub_def Let_def)

lemma PxMat33_of_quat_finite:
  "PxMat33_of_quat (PxQuat (Finite x) (Finite y) (Finite z) (Finite w)) =
     PxMat33
       (PxVec3 (Finite (1 - 2 * y * y - 2 * z * z)) (Finite (2 * x * y + 2 * z * w))
          (Finite (2 * x * z - 2 * y * w)))
       (PxVec3 (Finite (2 * x * y - 2 * z * w)) (Finite (1 - 2 * x * x - 2 * z * z))
          (Finite (2 * y * z + 2 * x * w)))
       (PxVec3 (Finite (2 * x * z + 2 * y * w)) (Finite (2 * y * z - 2 * x * w))
          (Finite (1 - 2 * x * x - 2 * y * y)))"
  by (simp add: PxMat33_of_quat_def fsub_def Let_def algebra_simps)

text \<open>For a finite unit quaternion the three columns are orthonormal.\<close>

lemma unit_quat_norms:
  fixes x y z w :: real
  assumes "x * x + y * y + z * z + w * w = 1"
  shows "(1 - 2 * y * y - 2 * z * z) * (1 - 2 * y * y - 2 * z * z)
       + (2 * x * y + 2 * z * w) * (2 * x * y + 2 * z * w)
       + (2 * x * z - 2 * y * w) * (2 * x * z - 2 * y * w) = 1"
    and "(2 * x * y - 2 * z * w) * (2 * x * y - 2 * z * w)
       + (1 - 2 * x * x - 2 * z * z) * (1 - 2 * x * x - 2 * z * z)
       + (2 * y * z + 2 * x * w) * (2 * y * z + 2 * x * w) = 1"
    and "(2 * x * z + 2 * y * w) * (2 * x * z + 2 * y * w)
       + (2 * y * z - 2 * x * w) * (2 * y * z - 2 * x * w)
       + (1 - 2 * x * x - 2 * y * y) * (1 - 2 * x * x - 2 * y * y) = 1"
proof -
  let ?N = "x * x + y * y + z * z + w * w"
  have "(1 - 2 * y * y - 2 * z * z) * (1 - 2 * y * y - 2 * z * z)
       + (2 * x * y + 2 * z * w) * (2 * x * y + 2 * z * w)
       + (2 * x * z - 2 * y * w) * (2 * x * z - 2 * y * w)
     = 1 + 4 * (y * y + z * z) * (?N - 1)"
    by (simp add: algebra_simps)
  with assms show "(1 - 2 * y * y - 2 * z * z) * (1 - 2 * y * y - 2 * z * z)
       + (2 * x * y + 2 * z * w) * (2 * x * y + 2 * z * w)
       + (2 * x * z - 2 * y * w) * (2 * x * z - 2 * y * w) = 1"
    by simp
  have "(2 * x * y - 2 * z * w) * (2 * x * y - 2 * z * w)
       + (1 - 2 * x * x - 2 * z * z) * (1 - 2 * x * x - 2 * z * z)
       + (2 * y * z + 2 * x * w) * (2 * y * z + 2 * x * w)
     = 1 + 4 * (x * x + z * z) * (?N - 1)"
    by (simp add: algebra_simps)
  with assms show "(2 * x * y - 2 * z * w) * (2 * x * y - 2 * z * w)
       + (1 - 2 * x * x - 2 * z * z) * (1 - 2 * x * x - 2 * z * z)
       + (2 * y * z + 2 * x * w) * (2 * y * z + 2 * x * w) = 1"
    by simp
  have "(2 * x * z + 2 * y * w) * (2 * x * z + 2 * y * w)
       + (2 * y * z - 2 * x * w) * (2 * y * z - 2 * x * w)
       + (1 - 2 * x * x - 2 * y * y) * (1 - 2 * x * x - 2 * y * y)
     = 1 + 4 * (x * x + y * y) * (?N - 1)"
    by (simp add: algebra_simps)
  with assms show "(2 * x * z + 2 * y * w) * (2 * x * z + 2 * y * w)
       + (2 * y * z - 2 * x * w) * (2 * y * z - 2 * x * w)
       + (1 - 2 * x * x - 2 * y * y) * (1 - 2 * x * x - 2 * y * y) = 1"
    by simp
qed

lemma unit_quat_orthogonal:
  fixes x y z w :: real
  assumes "x * x + y * y + z * z + w * w = 1"
  shows "(1 - 2 * y * y - 2 * z * z) * (2 * x * y - 2 * z * w)
       + (2 * x * y + 2 * z * w) * (1 - 2 * x * x - 2 * z * z)
       + (2 * x * z - 2 * y * w) * (2 * y * z + 2 * x * w) = 0"
    and "(1 - 2 * y * y - 2 * z * z) * (2 * x * z + 2 * y * w)
       + (2 * x * y + 2 * z * w) * (2 * y * z - 2 * x * w)
       + (2 * x * z - 2 * y * w) * (1 - 2 * x * x - 2 * y * y) = 0"
    and "(2 * x * y - 2 * z * w) * (2 * x * z + 2 * y * w)
       + (1 - 2 * x * x - 2 * z * z) * (2 * y * z - 2 * x * w)
       + (2 * y * z + 2 * x * w) * (1 - 2 * x * x - 2 * y * y) = 0"
proof -
  let ?N = "x * x + y * y + z * z + w * w"
  have "(1 - 2 * y * y - 2 * z * z) * (2 * x * y - 2 * z * w)
       + (2 * x * y + 2 * z * w) * (1 - 2 * x * x - 2 * z * z)
       + (2 * x * z - 2 * y * w) * (2 * y * z + 2 * x * w)
     = 4 * x * y * (1 - ?N)"
    by (simp add: algebra_simps)
  with assms show "(1 - 2 * y * y - 2 * z * z) * (2 * x * y - 2 * z * w)
       + (2 * x * y + 2 * z * w) * (1 - 2 * x * x - 2 * z * z)
       + (2 * x * z - 2 * y * w) * (2 * y * z + 2 * x * w) = 0"
    by simp
  have "(1 - 2 * y * y - 2 * z * z) * (2 * x * z + 2 * y * w)
       + (2 * x * y + 2 * z * w) * (2 * y * z - 2 * x * w)
       + (2 * x * z - 2 * y * w) * (1 - 2 * x * x - 2 * y * y)
     = 4 * x * z * (1 - ?N)"
    by (simp add: algebra_simps)
  with assms show "(1 - 2 * y * y - 2 * z * z) * (2 * x * z + 2 * y * w)
       + (2 * x * y + 2 * z * w) * (2 * y * z - 2 * x * w)
       + (2 * x * z - 2 * y * w) * (1 - 2 * x * x - 2 * y * y) = 0"
    by simp
  have "(2 * x * y - 2 * z * w) * (2 * x * z + 2 * y * w)
       + (1 - 2 * x * x - 2 * z * z) * (2 * y * z - 2 * x * w)
       + (2 * y * z + 2 * x * w) * (1 - 2 * x * x - 2 * y * y)
     = 4 * y * z * (1 - ?N)"
    by (simp add: algebra_simps)
  with assms show "(2 * x * y - 2 * z * w) * (2 * x * z + 2 * y * w)
       + (1 - 2 * x * x - 2 * z * z) * (2 * y * z - 2 * x * w)
       + (2 * y * z + 2 * x * w) * (1 - 2 * x * x - 2 * y * y) = 0"
    by simp
qed

lemma PxMat33_of_quat_orthonormal:
  assumes "x * x + y * y + z * z + w * w = 1"
  shows "dot (axis0 (PxMat33_of_quat (PxQuat (Finite x) (Finite y) (Finite z) (Finite w))))
             (axis0 (PxMat33_of_quat (PxQuat (Finite x) (Finite y) (Finite z) (Finite w))))
           = Finite 1"
    and "dot (axis1 (PxMat33_of_quat (PxQuat (Finite x) (Finite y) (Finite z) (Finite w))))
             (axis1 (PxMat33_of_quat (PxQuat (Finite x) (Finite y) (Finite z) (Finite w))))
           = Finite 1"
    and "dot (axis2 (PxMat33_of_quat (PxQuat (Finite x) (Finite y) (Finite z) (Finite w))))
             (axis2 (PxMat33_of_quat (PxQuat (Finite x) (Finite y) (Finite z) (Finite w))))
           = Finite 1"
    and "dot (axis0 (PxMat33_of_quat (PxQuat (Finite x) (Finite y) (Finite z) (Finite w))))
             (axis1 (PxMat33_of_quat (PxQuat (Finite x) (Finite y) (Finite z) (Finite w))))
           = Finite 0"
    and "dot (axis0 (PxMat33_of_quat (PxQuat (Finite x) (Finite y) (Finite z) (Finite w))))
             (axis2 (PxMat33_of_quat (PxQuat (Finite x) (Finite y) (Finite z) (Finite w))))
           = Finite 0"
    and "dot (axis1 (PxMat33_of_quat (PxQuat (Finite x) (Finite y) (Finite z) (Finite w))))
             (axis2 (PxMat33_of_quat (PxQuat (Finite x) (Finite y) (Finite z) (Finite w))))
           = Finite 0"
  unfolding PxMat33_of_quat_finite dot_def
  using unit_quat_norms [OF assms] unit_quat_orthogonal [OF assms]
  by simp_all

text \<open>
  C7. For an entity with a physical body, \<open>PhysicsUpdate\<close> returns, and the world matrix
  is then a function of the body's pose alone (the entity's scale does not enter): its
  translation column \<open>(m12, m13, m14)\<close> is the pose's position, \<open>m15\<close> is \<open>1\<close>, the bottom
  elements \<open>m3\<close>, \<open>m7\<close>, \<open>m11\<close> of the first three columns are \<open>0\<close>, and its upper-left 3x3
  block is the rotation matrix of the pose's orientation (orthonormal for a unit
  quaternion: \<open>PxMat33_of_quat_orthonormal\<close>). For the identity orientation the block is
  the identity, and for the position \<open>(1, 2, 3)\<close> the translation column is \<open>(1, 2, 3)\<close>.
\<close>

theorem PhysicsUpdate_worldMatrix:
  assumes "hitbox (ent st) = Some h" "actors (physics st) h = Some a"
  shows "\<exists>st'. PhysicsUpdate ext st = Some st'
     \<and> worldMatrix (ent st') = Matrix_of_PxMat44 (PxMat44_of_transform (globalPose a))
     \<and> translation (worldMatrix (ent st')) = transform_p (globalPose a)
     \<and> m15 (worldMatrix (ent st')) = Finite 1
     \<and> upper_left_3x3 (worldMatrix (ent st')) = PxMat33_of_quat (transform_q (globalPose a))
     \<and> m3 (worldMatrix (ent st')) = Finite 0
     \<and> m7 (worldMatrix (ent st')) = Finite 0
     \<and> m11 (worldMatrix (ent st')) = Finite 0
     \<and> (transform_q (globalPose a) = PxIdentity
          \<longrightarrow> upper_left_3x3 (worldMatrix (ent st')) = PxMat33_identity)
     \<and> (transform_p (globalPose a) = PxVec3 (Finite 1) (Finite 2) (Finite 3)
          \<longrightarrow> translation (worldMatrix (ent st')) = PxVec3 (Finite 1) (Finite 2) (Finite 3))"
proof -
  obtain st' where p: "PhysicsUpdate ext st = Some st'"
    and w: "worldMatrix (ent st') = Matrix_of_PxMat44 (PxMat44_of_transform (globalPose a))"
    using PhysicsUpdate_body [OF assms, of ext] by simp
  have t: "translation (worldMatrix (ent st')) = transform_p (globalPose a)"
    by (simp add: w translation_def Matrix_of_PxMat44_def PxMat44_of_transform_def
        PxVec4_of_def Let_def)
  have r: "upper_left_3x3 (worldMatrix (ent st')) = PxMat33_of_quat (transform_q (globalPose a))"
    by (simp add: w upper_left_3x3_def Matrix_of_PxMat44_def PxMat44_of_transform_def
        PxVec4_of_def Let_def)
  have b: "m15 (worldMatrix (ent st')) = Finite 1" "m3 (worldMatrix (ent st')) = Finite 0"
    "m7 (worldMatrix (ent st')) = Finite 0" "m11 (worldMatrix (ent st')) = Finite 0"
    by (simp_all add: w Matrix_of_PxMat44_def PxMat44_of_transform_def PxVec4_of_def Let_def)
  have i: "upper_left_3x3 (worldMatrix (ent st')) = PxMat33_identity"
    if "transform_q (globalPose a) = PxIdentity"
    using that r by (simp add: PxMat33_of_quat_identity)
  from p w t r b i show ?thesis by simp
qed


theorem PhysicsUpdate_worldMatrix_witness:
  "hitbox (ent bodied) = Some 0 \<and> actors (physics bodied) 0 = Some actor0
   \<and> (\<exists>st'. PhysicsUpdate ext0 bodied = Some st'
        \<and> translation (worldMatrix (ent st')) = PxVec3 (Finite 1) (Finite 2) (Finite 3)
        \<and> upper_left_3x3 (worldMatrix (ent st')) = PxMat33_identity
        \<and> m15 (worldMatrix (ent st')) = Finite 1)"
proof -
  have a: "hitbox (ent bodied) = Some 0" "actors (physics bodied) 0 = Some actor0"
    by (simp_all add: bodied_def)
  have g: "transform_q (globalPose actor0) = PxIdentity"
    "transform_p (globalPose actor0) = PxVec3 (Finite 1) (Finite 2) (Finite 3)"
    by (simp_all add: actor0_def)
  from PhysicsUpdate_worldMatrix [OF a, of ext0] g a show ?thesis
    by auto
qed

end
